theory Spec2Isabelle
  imports Main "HOL-Library.AList"
begin

section \<open>The Azure Redis cache module (azure\_rm\_redis.py)\<close>

text \<open>
  The module fetches the cache, decides between delete, update and create, optionally
  polls until the cache is provisioned, and fills a result dictionary. The embedding
  follows \<^verbatim>\<open>AzureRMRedisCache.exec_module\<close>, \<^verbatim>\<open>populate_results\<close> and
  \<^verbatim>\<open>check_resource_created\<close> statement by statement.

  The source writes \<^verbatim>\<open>else if self.state == 'present':\<close> in the check-mode block
  (line 283), which Python does not parse; it is read here as \<^verbatim>\<open>elif\<close>, the only
  reading that keeps the indentation of the three lines below it.
\<close>

subsection \<open>Python values\<close>

text \<open>
  Attributes of SDK objects, module parameters and entries of the result dictionary are
  dynamically typed. \<open>PSku\<close> is an instance of the SDK's \<^verbatim>\<open>Sku(name, family, capacity)\<close>.
\<close>

datatype pyval =
    PNone
  | PBool bool
  | PInt int
  | PStr string
  | PDict "(string \<times> pyval) list"
  | PSku pyval pyval pyval

subsection \<open>Exceptions and the outcome of a run\<close>

text \<open>
  \<^verbatim>\<open>CloudError\<close> is the SDK's exception; every other exception a client call can raise is
  \<open>OtherException\<close>. The string is \<^verbatim>\<open>str(exc)\<close>.
\<close>

datatype exc = CloudError string | OtherException string

fun str_exc :: "exc \<Rightarrow> string" where
  "str_exc (CloudError m) = m"
| "str_exc (OtherException m) = m"

text \<open>
  A run of \<^verbatim>\<open>exec_module\<close> ends in one of three ways: it returns \<^verbatim>\<open>self.results\<close>,
  it calls \<^verbatim>\<open>self.fail(msg)\<close> (which ends the module with that message), or an exception
  leaves the function.
\<close>

datatype outcome =
    Returned "(string \<times> pyval) list"
  | Failed string
  | Raised exc

subsection \<open>Module parameters, the remote resource, the create parameters\<close>

text \<open>The attributes set from \<^verbatim>\<open>kwargs\<close> at lines 252--253, after \<^verbatim>\<open>module_arg_spec\<close>.\<close>

record args =
  name :: string
  state :: string
  location :: pyval
  resource_group_name :: string
  tags :: pyval
  sku_name :: pyval
  sku_family :: pyval
  sku_capacity :: pyval
  redis_configuration :: pyval
  enable_nonssl_port :: pyval
  shard_count :: pyval
  subnet_id :: pyval
  static_ip :: pyval

text \<open>The object the client returns from \<^verbatim>\<open>get\<close> and \<^verbatim>\<open>create(...).result()\<close>.\<close>

record redis_resource =
  r_id :: pyval
  r_name :: pyval
  r_location :: pyval
  r_tags :: pyval
  r_provisioning_state :: pyval
  r_host_name :: pyval
  r_redis_version :: pyval
  r_sku :: pyval
  r_enable_non_ssl_port :: pyval
  r_redis_configuration :: pyval
  r_access_keys :: pyval
  r_port :: pyval
  r_ssl_port :: pyval

text \<open>
  \<^verbatim>\<open>RedisCreateParameters(location, sku, tags=, redis_configuration=, enable_non_ssl_port=,
  tenant_settings=, shard_count=, subnet_id=, static_ip=)\<close>.
\<close>

record redis_create_parameters =
  cp_location :: pyval
  cp_sku :: pyval
  cp_tags :: pyval
  cp_redis_configuration :: pyval
  cp_enable_non_ssl_port :: pyval
  cp_tenant_settings :: pyval
  cp_shard_count :: pyval
  cp_subnet_id :: pyval
  cp_static_ip :: pyval

subsection \<open>The management client\<close>

text \<open>
  \<^verbatim>\<open>self.redis_client.redis\<close> is an external collaborator. It is a deterministic machine
  over a state \<open>'s\<close> of its own: each operation takes the state, answers with a value or
  an exception, and gives the next state. \<open>redis_create\<close> stands for
  \<^verbatim>\<open>create(...).result()\<close>, \<open>redis_delete\<close> for \<^verbatim>\<open>delete(...)\<close> followed by
  \<^verbatim>\<open>get_poller_result\<close>. The provider registration that the \<^verbatim>\<open>redis_client\<close>
  property repeats on every access belongs to the base class and is left out.
\<close>

record 's redis_client =
  redis_get :: "string \<Rightarrow> string \<Rightarrow> 's \<Rightarrow> (exc + redis_resource) \<times> 's"
  redis_create :: "string \<Rightarrow> string \<Rightarrow> redis_create_parameters \<Rightarrow> 's \<Rightarrow> (exc + redis_resource) \<times> 's"
  redis_delete :: "string \<Rightarrow> string \<Rightarrow> 's \<Rightarrow> (exc + unit) \<times> 's"

text \<open>Every call made to the client is logged, in order.\<close>

datatype rpc =
    Get string string
  | Create string string redis_create_parameters
  | Delete string string

fun is_mutating :: "rpc \<Rightarrow> bool" where
  "is_mutating (Get _ _) = False"
| "is_mutating _ = True"

type_synonym 's world = "'s \<times> rpc list"

definition call_get ::
  "'s redis_client \<Rightarrow> string \<Rightarrow> string \<Rightarrow> 's world \<Rightarrow> (exc + redis_resource) \<times> 's world" where
  "call_get c rg n w =
     (case redis_get c rg n (fst w) of (r, s') \<Rightarrow> (r, (s', snd w @ [Get rg n])))"

definition call_create ::
  "'s redis_client \<Rightarrow> string \<Rightarrow> string \<Rightarrow> redis_create_parameters \<Rightarrow> 's world
     \<Rightarrow> (exc + redis_resource) \<times> 's world" where
  "call_create c rg n ps w =
     (case redis_create c rg n ps (fst w) of (r, s') \<Rightarrow> (r, (s', snd w @ [Create rg n ps])))"

definition call_delete ::
  "'s redis_client \<Rightarrow> string \<Rightarrow> string \<Rightarrow> 's world \<Rightarrow> (exc + unit) \<times> 's world" where
  "call_delete c rg n w =
     (case redis_delete c rg n (fst w) of (r, s') \<Rightarrow> (r, (s', snd w @ [Delete rg n])))"

subsection \<open>The result dictionary\<close>

text \<open>\<^verbatim>\<open>self.results\<close> as \<^verbatim>\<open>__init__\<close> builds it (lines 228--244), in insertion order.\<close>

definition init_results :: "(string \<times> pyval) list" where
  "init_results =
     [(''id'', PNone), (''name'', PNone), (''location'', PNone), (''tags'', PNone),
      (''provisioning_state'', PNone), (''accessKeys'', PNone), (''hostname'', PNone),
      (''redis_version'', PNone), (''sku'', PNone), (''enable_nonssl_port'', PNone),
      (''redis_configuration'', PNone), (''port'', PNone), (''ssl_port'', PNone),
      (''changed'', PNone), (''state'', PDict [])]"

text \<open>\<^verbatim>\<open>results[k] = v\<close>.\<close>

abbreviation setitem :: "string \<Rightarrow> pyval \<Rightarrow> (string \<times> pyval) list \<Rightarrow> (string \<times> pyval) list" where
  "setitem \<equiv> AList.update"

text \<open>\<^verbatim>\<open>populate_results\<close> (lines 367--380), one assignment per line of the source.\<close>

definition populate_results :: "redis_resource \<Rightarrow> (string \<times> pyval) list \<Rightarrow> (string \<times> pyval) list" where
  "populate_results redis_cache results =
     (setitem ''accessKeys'' (r_access_keys redis_cache)
     (setitem ''enable_nonssl_port'' (r_ssl_port redis_cache)
     (setitem ''sku'' (r_sku redis_cache)
     (setitem ''redis_version'' (r_redis_version redis_cache)
     (setitem ''hostname'' (r_host_name redis_cache)
     (setitem ''provisioning_state'' (r_provisioning_state redis_cache)
     (setitem ''tags'' (r_tags redis_cache)
     (setitem ''location'' (r_location redis_cache)
     (setitem ''name'' (r_name redis_cache)
     (setitem ''id'' (r_id redis_cache) results))))))))))"

subsection \<open>The provisioning wait\<close>

text \<open>
  \<^verbatim>\<open>check_resource_created\<close> (lines 381--398). The loop tests the state of
  \<^verbatim>\<open>self.redis_cache\<close>, counts, fetches again, and leaves with \<^verbatim>\<open>False\<close> when the
  count is exactly 180. An exception of the fetch is logged and raised again. The loop
  has no bound other than the equality test, so it is a partial function; the result
  carries the last \<^verbatim>\<open>self.redis_cache\<close>.
\<close>

partial_function (option) check_resource_created_loop ::
  "'s redis_client \<Rightarrow> args \<Rightarrow> nat \<Rightarrow> redis_resource \<Rightarrow> 's world
     \<Rightarrow> ((exc + bool) \<times> redis_resource \<times> 's world) option" where
  "check_resource_created_loop c a count redis_cache w =
     (if \<not> (r_provisioning_state redis_cache = PStr ''Succeeded'') then
        (case call_get c (resource_group_name a) (name a) w of
           (Inl e, w') \<Rightarrow> Some (Inl e, redis_cache, w')
         | (Inr redis_cache', w') \<Rightarrow>
             if count + 1 = 180 then Some (Inr False, redis_cache', w')
             else check_resource_created_loop c a (count + 1) redis_cache' w')
      else Some (Inr True, redis_cache, w))"

definition check_resource_created ::
  "'s redis_client \<Rightarrow> args \<Rightarrow> redis_resource \<Rightarrow> 's world
     \<Rightarrow> ((exc + bool) \<times> redis_resource \<times> 's world) option" where
  "check_resource_created c a redis_cache w = check_resource_created_loop c a 0 redis_cache w"

subsection \<open>exec\_module\<close>

text \<open>The parameters both \<^verbatim>\<open>create\<close> calls build (lines 311--316 and 335--340).\<close>

definition update_parameters :: "args \<Rightarrow> redis_create_parameters" where
  "update_parameters a =
     \<lparr>cp_location = location a,
      cp_sku = PSku (sku_name a) (sku_family a) (sku_capacity a),
      cp_tags = tags a, cp_redis_configuration = PNone,
      cp_enable_non_ssl_port = PNone, cp_tenant_settings = PNone,
      cp_shard_count = PNone, cp_subnet_id = PNone, cp_static_ip = PNone\<rparr>"

definition create_parameters :: "args \<Rightarrow> redis_create_parameters" where
  "create_parameters a =
     \<lparr>cp_location = location a,
      cp_sku = PSku (sku_name a) (sku_family a) (sku_capacity a),
      cp_tags = tags a, cp_redis_configuration = PNone,
      cp_enable_non_ssl_port = PNone, cp_tenant_settings = PNone,
      cp_shard_count = PNone, cp_subnet_id = PNone, cp_static_ip = PNone\<rparr>"

text \<open>\<^verbatim>\<open>'Failed with {}'.format(exc)\<close>.\<close>

definition failed_with :: "exc \<Rightarrow> string" where
  "failed_with e = ''Failed with '' @ str_exc e"

text \<open>
  Lines 290--353: the delete, the update and the create. \<open>to_update\<close> and the results
  come from the fetch; \<^verbatim>\<open>except CloudError\<close> turns into \<^verbatim>\<open>self.fail\<close>, any other
  exception leaves the function. When the wait gives \<^verbatim>\<open>False\<close> the source fills the
  results and then fails; \<^verbatim>\<open>self.fail\<close> is given the message only, so \<open>Failed\<close>
  carries the message only.
\<close>

definition apply_changes ::
  "'s redis_client \<Rightarrow> args \<Rightarrow> bool \<Rightarrow> (string \<times> pyval) list \<Rightarrow> 's world
     \<Rightarrow> (outcome \<times> 's world) option" where
  "apply_changes c a to_update results w =
     (if state a = ''absent'' \<and> to_update = True then
        (case call_delete c (resource_group_name a) (name a) w of
           (Inl (CloudError m), w') \<Rightarrow> Some (Failed (failed_with (CloudError m)), w')
         | (Inl (OtherException m), w') \<Rightarrow> Some (Raised (OtherException m), w')
         | (Inr _, w') \<Rightarrow>
             Some (Returned (setitem ''state'' (PStr ''absent'')
                            (setitem ''changed'' (PBool True) results)), w'))
      else if state a = ''present'' \<and> to_update = True then
        (case call_create c (resource_group_name a) (name a) (update_parameters a) w of
           (Inl (CloudError m), w') \<Rightarrow> Some (Failed (failed_with (CloudError m)), w')
         | (Inl (OtherException m), w') \<Rightarrow> Some (Raised (OtherException m), w')
         | (Inr redis_cache, w') \<Rightarrow>
             Some (Returned (populate_results redis_cache
                            (setitem ''state'' (PStr ''present'')
                            (setitem ''changed'' (PBool True) results))), w'))
      else
        (case call_create c (resource_group_name a) (name a) (create_parameters a) w of
           (Inl (CloudError m), w') \<Rightarrow> Some (Failed (failed_with (CloudError m)), w')
         | (Inl (OtherException m), w') \<Rightarrow> Some (Raised (OtherException m), w')
         | (Inr redis_cache, w') \<Rightarrow>
             (case check_resource_created c a redis_cache w' of
                None \<Rightarrow> None
              | Some (Inl (CloudError m), _, w'') \<Rightarrow> Some (Failed (failed_with (CloudError m)), w'')
              | Some (Inl (OtherException m), _, w'') \<Rightarrow> Some (Raised (OtherException m), w'')
              | Some (Inr created, redis_cache', w'') \<Rightarrow>
                  if created = False then
                    Some (Failed ''Waited too long, resource might be created'', w'')
                  else
                    Some (Returned (populate_results redis_cache'
                                   (setitem ''state'' (PStr ''present'')
                                   (setitem ''changed'' (PBool True) results))), w''))))"

text \<open>
  Lines 270--287, the check-mode block, then the rest. \<open>changed\<close> is the local of line
  256, still \<^verbatim>\<open>False\<close> in this block. When no branch of the block returns, control
  reaches line 291.
\<close>

definition after_fetch ::
  "'s redis_client \<Rightarrow> bool \<Rightarrow> args \<Rightarrow> bool \<Rightarrow> 's world \<Rightarrow> (outcome \<times> 's world) option" where
  "after_fetch c check_mode a to_update w =
     (let results = init_results; changed = False in
      if check_mode then
        if state a = ''absent'' \<and> to_update then
          Some (Returned (setitem ''state'' (PStr ''absent'')
                         (setitem ''changed'' (PBool True) results)), w)
        else if state a = ''present'' \<and> to_update then
          Some (Returned (setitem ''state'' (PStr ''present'')
                         (setitem ''changed'' (PBool True) results)), w)
        else if state a = ''present'' then
          Some (Returned (setitem ''name'' (PStr (name a))
                         (setitem ''state'' (PStr ''present'')
                         (setitem ''changed'' (PBool changed) results))), w)
        else apply_changes c a to_update results w
      else apply_changes c a to_update results w)"

text \<open>
  Lines 250--268: the first fetch. A \<^verbatim>\<open>CloudError\<close> is logged and \<^verbatim>\<open>to_update\<close> keeps
  the \<^verbatim>\<open>False\<close> of \<^verbatim>\<open>__init__\<close>; any other exception leaves the function. The run
  starts from the client state \<open>s\<close> with an empty log.
\<close>

definition exec_module ::
  "'s redis_client \<Rightarrow> bool \<Rightarrow> args \<Rightarrow> 's \<Rightarrow> (outcome \<times> 's world) option" where
  "exec_module c check_mode a s =
     (case call_get c (resource_group_name a) (name a) (s, []) of
        (Inr redis_cache, w) \<Rightarrow> after_fetch c check_mode a True w
      | (Inl (CloudError m), w) \<Rightarrow> after_fetch c check_mode a False w
      | (Inl (OtherException m), w) \<Rightarrow> Some (Raised (OtherException m), w))"

subsection \<open>The provider after a number of polls\<close>

text \<open>
  One fetch as the wait makes it, seen from outside: the provider moves to its next
  state, and the cache held is the one fetched, or the old one when the fetch raised.
  Iterating it \<open>n\<close> times gives the provider state and the cache after \<open>n\<close> polls.
\<close>

definition poll_once :: "'s redis_client \<Rightarrow> args \<Rightarrow> redis_resource \<times> 's \<Rightarrow> redis_resource \<times> 's" where
  "poll_once c a p =
     (case redis_get c (resource_group_name a) (name a) (snd p) of
        (Inr redis_cache', s') \<Rightarrow> (redis_cache', s')
      | (Inl e, s') \<Rightarrow> (fst p, s'))"

subsection \<open>Reading a run\<close>


definition calls_of :: "(outcome \<times> 's world) option \<Rightarrow> rpc list" where
  "calls_of run = (case run of None \<Rightarrow> [] | Some (_, w) \<Rightarrow> snd w)"

text \<open>The value of \<^verbatim>\<open>results[k]\<close> of a run that returned.\<close>

definition result_of :: "(outcome \<times> 's world) option \<Rightarrow> string \<Rightarrow> pyval option" where
  "result_of run k =
     (case run of Some (Returned results, _) \<Rightarrow> map_of results k | _ \<Rightarrow> None)"

subsection \<open>Clients and parameters for concrete runs\<close>

text \<open>A cache as the provider reports it, in the provisioning state \<open>st\<close>.\<close>

definition mock_resource :: "string \<Rightarrow> redis_resource" where
  "mock_resource st =
     \<lparr>r_id = PStr ''/subscriptions/sub1/resourceGroups/rg1/providers/Microsoft.Cache/Redis/cache1'',
      r_name = PStr ''cache1'', r_location = PStr ''westus'', r_tags = PNone,
      r_provisioning_state = PStr st,
      r_host_name = PStr ''cache1.redis.cache.windows.net'',
      r_redis_version = PStr ''3.0'',
      r_sku = PSku (PStr ''Premium'') (PStr ''P'') (PInt 1),
      r_enable_non_ssl_port = PBool False,
      r_redis_configuration = PDict [(''maxmemory-policy'', PStr ''allkeys-lru'')],
      r_access_keys = PNone, r_port = PInt 6379, r_ssl_port = PInt 6380\<rparr>"

text \<open>
  A provider holding at most one cache. Its state is \<open>None\<close> when the cache does not
  exist and \<open>Some n\<close> when it exists and has answered \<open>n\<close> fetches since it was
  created; the \<open>n\<close>-th fetch reports the provisioning state \<open>f n\<close>. A fetch of a
  missing cache raises a \<^verbatim>\<open>CloudError\<close>.
\<close>

definition mock_client :: "(nat \<Rightarrow> string) \<Rightarrow> nat option redis_client" where
  "mock_client f =
     \<lparr>redis_get = (\<lambda>rg n s. case s of
          None \<Rightarrow> (Inl (CloudError ''ResourceNotFound''), None)
        | Some k \<Rightarrow> (Inr (mock_resource (f k)), Some (k + 1))),
      redis_create = (\<lambda>rg n ps s. (Inr (mock_resource ''Creating''), Some 0)),
      redis_delete = (\<lambda>rg n s. (Inr (), None))\<rparr>"

definition running_then_succeeded :: "nat \<Rightarrow> nat \<Rightarrow> string" where
  "running_then_succeeded K n = (if n < K then ''Running'' else ''Succeeded'')"

definition always_running :: "nat \<Rightarrow> string" where
  "always_running n = ''Running''"


text \<open>The parameters of the module's own example, with the requested \<open>state\<close>.\<close>

definition cache1_args :: "string \<Rightarrow> args" where
  "cache1_args st =
     \<lparr>name = ''cache1'', state = st, location = PStr ''westus'',
      resource_group_name = ''rg1'', tags = PNone,
      sku_name = PStr ''Premium'', sku_family = PStr ''P'', sku_capacity = PInt 1,
      redis_configuration = PDict [(''maxmemory-policy'', PStr ''allkeys-lru'')],
      enable_nonssl_port = PBool True, shard_count = PInt 2,
      subnet_id = PStr ''subnet1'', static_ip = PStr ''192.168.0.5''\<rparr>"

section \<open>Properties\<close>

subsection \<open>One turn of the wait loop\<close>


lemma loop_unfold_done:
  "r_provisioning_state cache = PStr ''Succeeded'' \<Longrightarrow>
   check_resource_created_loop c a count cache w = Some (Inr True, cache, w)"
  by (subst check_resource_created_loop.simps) simp

lemma loop_unfold_exc:
  "r_provisioning_state cache \<noteq> PStr ''Succeeded'' \<Longrightarrow>
   redis_get c (resource_group_name a) (name a) s = (Inl e, s') \<Longrightarrow>
   check_resource_created_loop c a count cache (s, tr) =
     Some (Inl e, cache, (s', tr @ [Get (resource_group_name a) (name a)]))"
  by (subst check_resource_created_loop.simps) (simp add: call_get_def)

lemma loop_unfold_cap:
  "r_provisioning_state cache \<noteq> PStr ''Succeeded'' \<Longrightarrow>
   redis_get c (resource_group_name a) (name a) s = (Inr cache', s') \<Longrightarrow>
   count + 1 = 180 \<Longrightarrow>
   check_resource_created_loop c a count cache (s, tr) =
     Some (Inr False, cache', (s', tr @ [Get (resource_group_name a) (name a)]))"
  by (subst check_resource_created_loop.simps) (simp add: call_get_def)

lemma loop_unfold_step:
  "r_provisioning_state cache \<noteq> PStr ''Succeeded'' \<Longrightarrow>
   redis_get c (resource_group_name a) (name a) s = (Inr cache', s') \<Longrightarrow>
   count + 1 \<noteq> 180 \<Longrightarrow>
   check_resource_created_loop c a count cache (s, tr) =
     check_resource_created_loop c a (count + 1) cache'
       (s', tr @ [Get (resource_group_name a) (name a)])"
  by (subst check_resource_created_loop.simps) (simp add: call_get_def)

lemma loop_total:
  "count < 180 \<Longrightarrow>
   \<exists>r rc s' n. check_resource_created_loop c a count cache (s, tr) =
       Some (r, rc, (s', tr @ replicate n (Get (resource_group_name a) (name a))))
     \<and> n \<le> 180 - count"
proof (induction k \<equiv> "180 - count" arbitrary: count cache s tr)
  case 0
  then show ?case by simp
next
  case (Suc k)
  show ?case
  proof (cases "r_provisioning_state cache = PStr ''Succeeded''")
    case True
    have "check_resource_created_loop c a count cache (s, tr) =
        Some (Inr True, cache, (s, tr @ replicate 0 (Get (resource_group_name a) (name a))))"
      using loop_unfold_done [OF True] by simp
    then show ?thesis by blast
  next
    case False
    obtain r s1 where g: "redis_get c (resource_group_name a) (name a) s = (r, s1)"
      by (cases "redis_get c (resource_group_name a) (name a) s")
    show ?thesis
    proof (cases r)
      case (Inl e)
      have "check_resource_created_loop c a count cache (s, tr) =
          Some (Inl e, cache, (s1, tr @ replicate 1 (Get (resource_group_name a) (name a))))"
        using loop_unfold_exc [OF False] g Inl by simp
      moreover have "1 \<le> 180 - count" using Suc.prems by simp
      ultimately show ?thesis by blast
    next
      case (Inr cache')
      have g': "redis_get c (resource_group_name a) (name a) s = (Inr cache', s1)"
        using g Inr by simp
      show ?thesis
      proof (cases "count + 1 = 180")
        case True
        have "check_resource_created_loop c a count cache (s, tr) =
            Some (Inr False, cache', (s1, tr @ replicate 1 (Get (resource_group_name a) (name a))))"
          using loop_unfold_cap [OF False g' True, of tr] by simp
        moreover have "1 \<le> 180 - count" using Suc.prems by simp
        ultimately show ?thesis by blast
      next
        case ne: False
        have k: "k = 180 - (count + 1)" using Suc.hyps(2) by simp
        have lt: "count + 1 < 180" using Suc.prems ne by simp
        obtain r' rc s' n where
          ih: "check_resource_created_loop c a (count + 1) cache'
                 (s1, tr @ [Get (resource_group_name a) (name a)]) =
               Some (r', rc, (s', (tr @ [Get (resource_group_name a) (name a)])
                        @ replicate n (Get (resource_group_name a) (name a))))"
          and n: "n \<le> 180 - (count + 1)"
          using Suc.hyps(1) [OF k lt] by blast
        have "check_resource_created_loop c a count cache (s, tr) =
            Some (r', rc, (s', tr @ replicate (Suc n) (Get (resource_group_name a) (name a))))"
          using loop_unfold_step [OF False g' ne, of tr] ih by simp
        moreover have "Suc n \<le> 180 - count" using n lt by simp
        ultimately show ?thesis by blast
      qed
    qed
  qed
qed

lemma mock_get_some:
  "redis_get (mock_client f) rg n (Some k) = (Inr (mock_resource (f k)), Some (k + 1))"
  by (simp add: mock_client_def)

lemma mock_wait:
  "count \<le> K \<Longrightarrow> K < 180 \<Longrightarrow> r_provisioning_state cache \<noteq> PStr ''Succeeded'' \<Longrightarrow>
   check_resource_created_loop (mock_client (running_then_succeeded K)) a count cache
       (Some count, tr) =
     Some (Inr (K < 179), mock_resource ''Succeeded'',
           (Some (K + 1), tr @ replicate (K + 1 - count) (Get (resource_group_name a) (name a))))"
proof (induction d \<equiv> "K - count" arbitrary: count cache tr)
  case 0
  then have eq: "count = K" by simp
  have g: "redis_get (mock_client (running_then_succeeded K)) (resource_group_name a) (name a)
             (Some count) = (Inr (mock_resource ''Succeeded''), Some (K + 1))"
    by (simp add: mock_get_some running_then_succeeded_def eq)
  show ?case
  proof (cases "K + 1 = 180")
    case True
    then have c: "count + 1 = 180" using eq by simp
    show ?thesis
      using loop_unfold_cap [OF "0.prems"(3) g c, of tr] True eq by simp
  next
    case False
    then have c: "count + 1 \<noteq> 180" using eq by simp
    have dn: "r_provisioning_state (mock_resource ''Succeeded'') = PStr ''Succeeded''"
      by (simp add: mock_resource_def)
    show ?thesis
      using loop_unfold_step [OF "0.prems"(3) g c, of tr] loop_unfold_done [OF dn]
        False "0.prems"(2) eq by simp
  qed
next
  case (Suc d)
  then have lt: "count < K" by simp
  have g: "redis_get (mock_client (running_then_succeeded K)) (resource_group_name a) (name a)
             (Some count) = (Inr (mock_resource ''Running''), Some (count + 1))"
    using lt by (simp add: mock_get_some running_then_succeeded_def)
  have c: "count + 1 \<noteq> 180" using lt Suc.prems(2) by simp
  have run: "r_provisioning_state (mock_resource ''Running'') \<noteq> PStr ''Succeeded''"
    by (simp add: mock_resource_def)
  have d: "d = K - (count + 1)" using Suc.hyps(2) by simp
  have le: "count + 1 \<le> K" using lt by simp
  have r: "replicate (K + 1 - count) (Get (resource_group_name a) (name a)) =
      Get (resource_group_name a) (name a) # replicate (K + 1 - (count + 1)) (Get (resource_group_name a) (name a))"
    using lt by (simp add: Suc_diff_le flip: replicate_Suc)
  show ?case
    using loop_unfold_step [OF Suc.prems(3) g c, of tr]
      Suc.hyps(1) [OF d le Suc.prems(2) run, of "tr @ [Get (resource_group_name a) (name a)]"] r
    by simp
qed

subsection \<open>The calls of a run\<close>

lemma wait_total:
  "\<exists>r rc s' n. check_resource_created c a cache (s, tr) =
       Some (r, rc, (s', tr @ replicate n (Get (resource_group_name a) (name a))))
     \<and> n \<le> 180"
  unfolding check_resource_created_def using loop_total [of 0 c a cache s tr] by simp

lemma filter_mutating_gets [simp]: "filter is_mutating (replicate n (Get rg nm)) = []"
  by (induction n) simp_all

lemma apply_changes_calls:
  "\<exists>out s' tr'. apply_changes c a tu res (s, tr) = Some (out, (s', tr @ tr'))
     \<and> length (filter is_mutating tr') \<le> 1"
proof -
  consider (del) "state a = ''absent'' \<and> tu"
    | (upd) "\<not> (state a = ''absent'' \<and> tu)" "state a = ''present'' \<and> tu"
    | (cre) "\<not> (state a = ''absent'' \<and> tu)" "\<not> (state a = ''present'' \<and> tu)"
    by blast
  then show ?thesis
  proof cases
    case del
    obtain d s1 where d: "redis_delete c (resource_group_name a) (name a) s = (d, s1)"
      by (cases "redis_delete c (resource_group_name a) (name a) s")
    have "\<exists>out. apply_changes c a tu res (s, tr) =
        Some (out, (s1, tr @ [Delete (resource_group_name a) (name a)]))"
      using del d by (auto simp: apply_changes_def call_delete_def split: sum.splits exc.splits)
    then show ?thesis by fastforce
  next
    case upd
    obtain r s1 where r: "redis_create c (resource_group_name a) (name a) (update_parameters a) s = (r, s1)"
      by (cases "redis_create c (resource_group_name a) (name a) (update_parameters a) s")
    have "\<exists>out. apply_changes c a tu res (s, tr) =
        Some (out, (s1, tr @ [Create (resource_group_name a) (name a) (update_parameters a)]))"
      using upd r by (auto simp: apply_changes_def call_create_def split: sum.splits exc.splits)
    then show ?thesis by fastforce
  next
    case cre
    let ?ev = "Create (resource_group_name a) (name a) (create_parameters a)"
    obtain r s1 where r: "redis_create c (resource_group_name a) (name a) (create_parameters a) s = (r, s1)"
      by (cases "redis_create c (resource_group_name a) (name a) (create_parameters a) s")
    show ?thesis
    proof (cases r)
      case (Inl e)
      have "\<exists>out. apply_changes c a tu res (s, tr) = Some (out, (s1, tr @ [?ev]))"
        using cre r Inl by (cases e) (auto simp: apply_changes_def call_create_def)
      then show ?thesis by fastforce
    next
      case (Inr cache)
      obtain r' rc s' n where w: "check_resource_created c a cache (s1, tr @ [?ev]) =
          Some (r', rc, (s', (tr @ [?ev]) @ replicate n (Get (resource_group_name a) (name a))))"
        using wait_total [of c a cache s1 "tr @ [?ev]"] by blast
      have "\<exists>out. apply_changes c a tu res (s, tr) =
          Some (out, (s', tr @ (?ev # replicate n (Get (resource_group_name a) (name a)))))"
        using cre r Inr w
        by (auto simp: apply_changes_def call_create_def split: sum.splits exc.splits)
      moreover have "length (filter is_mutating (?ev # replicate n (Get (resource_group_name a) (name a)))) \<le> 1"
        by simp
      ultimately show ?thesis by blast
    qed
  qed
qed

lemma after_fetch_calls:
  "\<exists>out s' tr'. after_fetch c check_mode a tu (s, tr) = Some (out, (s', tr @ tr'))
     \<and> length (filter is_mutating tr') \<le> 1"
proof -
  have ret: "\<And>res. \<exists>out s' tr'. Some (Returned res, (s, tr)) = Some (out, (s', tr @ tr'))
     \<and> length (filter is_mutating tr') \<le> 1"
    by (rule exI, rule exI [of _ s], rule exI [of _ "[]"]) simp
  show ?thesis
    unfolding after_fetch_def Let_def
    using ret apply_changes_calls [of c a tu init_results s tr]
    by (simp only: split: if_splits) blast
qed

text \<open>
  Claim C7. Whatever the parameters, the mode and the provider, a run of
  \<open>exec_module\<close> ends, and the calls it made hold at most one create or delete.
\<close>

theorem at_most_one_mutating_call:
  "\<exists>out s' tr. exec_module c check_mode a s = Some (out, (s', tr))
     \<and> length (filter is_mutating tr) \<le> 1"
proof -
  let ?g = "Get (resource_group_name a) (name a)"
  obtain r s1 where g: "redis_get c (resource_group_name a) (name a) s = (r, s1)"
    by (cases "redis_get c (resource_group_name a) (name a) s")
  have cg: "call_get c (resource_group_name a) (name a) (s, []) = (r, (s1, [?g]))"
    using g by (simp add: call_get_def)
  have af: "\<And>tu. \<exists>out s' tr. after_fetch c check_mode a tu (s1, [?g]) = Some (out, (s', tr))
     \<and> length (filter is_mutating tr) \<le> 1"
  proof -
    fix tu
    obtain out s' tr' where "after_fetch c check_mode a tu (s1, [?g]) = Some (out, (s', [?g] @ tr'))"
      and "length (filter is_mutating tr') \<le> 1"
      using after_fetch_calls [of c check_mode a tu s1 "[?g]"] by blast
    then show "\<exists>out s' tr. after_fetch c check_mode a tu (s1, [?g]) = Some (out, (s', tr))
       \<and> length (filter is_mutating tr) \<le> 1"
      by (intro exI [of _ out] exI [of _ s'] exI [of _ "[?g] @ tr'"]) simp
  qed
  show ?thesis
  proof (cases r)
    case (Inr cache)
    then show ?thesis using af [of True] cg by (simp add: exec_module_def)
  next
    case (Inl e)
    then show ?thesis using af [of False] cg by (cases e) (simp_all add: exec_module_def)
  qed
qed

subsection \<open>The wait against a provider that never reports success\<close>

lemma poll_once_fetched:
  "redis_get c (resource_group_name a) (name a) s = (Inr cache', s') \<Longrightarrow>
   poll_once c a (cache, s) = (cache', s')"
  by (simp add: poll_once_def)

lemma never_succeeded_loop:
  assumes inv: "\<And>s. I s \<Longrightarrow> \<exists>rc s'. redis_get c (resource_group_name a) (name a) s = (Inr rc, s')
            \<and> r_provisioning_state rc \<noteq> PStr ''Succeeded'' \<and> I s'"
  shows "count < 180 \<Longrightarrow> I s \<Longrightarrow> r_provisioning_state cache \<noteq> PStr ''Succeeded'' \<Longrightarrow>
   check_resource_created_loop c a count cache (s, tr) =
     Some (Inr False, fst ((poll_once c a ^^ (180 - count)) (cache, s)),
           (snd ((poll_once c a ^^ (180 - count)) (cache, s)),
            tr @ replicate (180 - count) (Get (resource_group_name a) (name a))))"
proof (induction k \<equiv> "180 - count" arbitrary: count cache s tr)
  case 0
  then show ?case by simp
next
  case (Suc k)
  let ?g = "Get (resource_group_name a) (name a)"
  obtain cache' s1 where g: "redis_get c (resource_group_name a) (name a) s = (Inr cache', s1)"
    and ns: "r_provisioning_state cache' \<noteq> PStr ''Succeeded''" and I1: "I s1"
    using inv [OF Suc.prems(2)] by blast
  have p: "poll_once c a (cache, s) = (cache', s1)"
    using poll_once_fetched [OF g] .
  show ?case
  proof (cases "count + 1 = 180")
    case True
    then have "180 - count = 1" by simp
    then show ?thesis
      using loop_unfold_cap [OF Suc.prems(3) g True, of tr] p by simp
  next
    case False
    have k: "k = 180 - (count + 1)" using Suc.hyps(2) by simp
    have lt: "count + 1 < 180" using Suc.prems(1) False by simp
    have ih: "check_resource_created_loop c a (count + 1) cache' (s1, tr @ [?g]) =
        Some (Inr False, fst ((poll_once c a ^^ k) (cache', s1)),
              (snd ((poll_once c a ^^ k) (cache', s1)),
               (tr @ [?g]) @ replicate k ?g))"
      using Suc.hyps(1) [OF k lt I1 ns, of "tr @ [?g]"] k by simp
    have d: "180 - count = Suc k" using Suc.hyps(2) by simp
    have f: "(poll_once c a ^^ Suc k) (cache, s) = (poll_once c a ^^ k) (cache', s1)"
      using p by (simp add: funpow_swap1)
    show ?thesis
      unfolding d f
      using loop_unfold_step [OF Suc.prems(3) g False, of tr] ih by simp
  qed
qed

lemma mock_always_running:
  "s \<noteq> None \<Longrightarrow> \<exists>rc s'. redis_get (mock_client always_running) rg nm s = (Inr rc, s')
     \<and> r_provisioning_state rc \<noteq> PStr ''Succeeded'' \<and> s' \<noteq> None"
  by (cases s) (simp_all add: mock_client_def always_running_def mock_resource_def)

lemma mock_always_running_poll:
  "poll_once (mock_client always_running) a (cache, Some k) =
     (mock_resource ''Running'', Some (k + 1))"
  by (simp add: poll_once_def mock_client_def always_running_def)

lemma mock_always_running_polls:
  "0 < n \<Longrightarrow> (poll_once (mock_client always_running) a ^^ n) (cache, Some k) =
     (mock_resource ''Running'', Some (k + n))"
proof (induction n)
  case 0
  then show ?case by simp
next
  case (Suc n)
  show ?case
  proof (cases "n = 0")
    case True
    then show ?thesis by (simp add: mock_always_running_poll)
  next
    case False
    then have "(poll_once (mock_client always_running) a ^^ n) (cache, Some k) =
        (mock_resource ''Running'', Some (k + n))"
      using Suc.IH by simp
    then show ?thesis by (simp add: mock_always_running_poll)
  qed
qed

text \<open>
  Claim C5. The first fetch finds no cache, the create answers with a cache that is not
  yet \<^verbatim>\<open>Succeeded\<close>, and from then on every fetch answers with a cache that is not
  \<^verbatim>\<open>Succeeded\<close> (\<open>I\<close> holds of the provider states the wait passes through). Then
  \<open>check_resource_created\<close> gives \<^verbatim>\<open>False\<close> after exactly 180 fetches: it has added
  180 fetches to the calls, the provider is in the state that 180 polls lead to, and the
  cache held is the one the 180th poll fetched. \<open>exec_module\<close> fails there with the
  message \<^verbatim>\<open>Waited too long, resource might be created\<close>, which no
  \<^verbatim>\<open>Failed with ...\<close> message of a \<^verbatim>\<open>CloudError\<close> equals.
\<close>

theorem provisioning_timeout:
  assumes get0: "redis_get c (resource_group_name a) (name a) s0 = (Inl (CloudError m), s1)"
    and cr: "redis_create c (resource_group_name a) (name a) (create_parameters a) s1 =
               (Inr redis_cache, s2)"
    and ns: "r_provisioning_state redis_cache \<noteq> PStr ''Succeeded''"
    and I: "I s2"
    and inv: "\<And>s. I s \<Longrightarrow> \<exists>rc s'. redis_get c (resource_group_name a) (name a) s = (Inr rc, s')
            \<and> r_provisioning_state rc \<noteq> PStr ''Succeeded'' \<and> I s'"
  shows
    "check_resource_created c a redis_cache
         (s2, [Get (resource_group_name a) (name a),
               Create (resource_group_name a) (name a) (create_parameters a)]) =
       Some (Inr False, fst ((poll_once c a ^^ 180) (redis_cache, s2)),
         (snd ((poll_once c a ^^ 180) (redis_cache, s2)),
          [Get (resource_group_name a) (name a),
           Create (resource_group_name a) (name a) (create_parameters a)]
          @ replicate 180 (Get (resource_group_name a) (name a))))
     \<and> exec_module c False a s0 =
       Some (Failed ''Waited too long, resource might be created'',
         (snd ((poll_once c a ^^ 180) (redis_cache, s2)),
          [Get (resource_group_name a) (name a),
           Create (resource_group_name a) (name a) (create_parameters a)]
          @ replicate 180 (Get (resource_group_name a) (name a))))
     \<and> (\<forall>e. failed_with e \<noteq> ''Waited too long, resource might be created'')"
proof -
  let ?g = "Get (resource_group_name a) (name a)"
  let ?c = "Create (resource_group_name a) (name a) (create_parameters a)"
  let ?p = "(poll_once c a ^^ 180) (redis_cache, s2)"
  have w: "check_resource_created c a redis_cache (s2, [?g, ?c]) =
      Some (Inr False, fst ?p, (snd ?p, [?g, ?c] @ replicate 180 ?g))"
    using never_succeeded_loop [of I c a 0 s2 redis_cache "[?g, ?c]", OF inv _ I ns]
    unfolding check_resource_created_def by simp
  have e: "exec_module c False a s0 =
      Some (Failed ''Waited too long, resource might be created'', (snd ?p, [?g, ?c] @ replicate 180 ?g))"
    using get0 cr w
    by (simp add: exec_module_def call_get_def after_fetch_def apply_changes_def call_create_def)
  have d: "\<forall>e. failed_with e \<noteq> ''Waited too long, resource might be created''"
    by (simp add: failed_with_def)
  show ?thesis using w e d by blast
qed

theorem provisioning_timeout_witness:
  "check_resource_created (mock_client always_running) (cache1_args ''present'')
       (mock_resource ''Creating'')
       (Some 0, [Get ''rg1'' ''cache1'',
             Create ''rg1'' ''cache1'' (create_parameters (cache1_args ''present''))]) =
     Some (Inr False, mock_resource ''Running'',
       (Some 180, [Get ''rg1'' ''cache1'',
             Create ''rg1'' ''cache1'' (create_parameters (cache1_args ''present''))]
            @ replicate 180 (Get ''rg1'' ''cache1'')))
   \<and> exec_module (mock_client always_running) False (cache1_args ''present'') None =
     Some (Failed ''Waited too long, resource might be created'',
       (Some 180, [Get ''rg1'' ''cache1'',
             Create ''rg1'' ''cache1'' (create_parameters (cache1_args ''present''))]
            @ replicate 180 (Get ''rg1'' ''cache1'')))"
proof -
  let ?a = "cache1_args ''present''"
  have get0: "redis_get (mock_client always_running) (resource_group_name ?a) (name ?a) None =
      (Inl (CloudError ''ResourceNotFound''), None)"
    by (simp add: mock_client_def)
  have cr: "redis_create (mock_client always_running) (resource_group_name ?a) (name ?a)
      (create_parameters ?a) None = (Inr (mock_resource ''Creating''), Some 0)"
    by (simp add: mock_client_def)
  have ns: "r_provisioning_state (mock_resource ''Creating'') \<noteq> PStr ''Succeeded''"
    by (simp add: mock_resource_def)
  have I: "Some (0::nat) \<noteq> None" by simp
  have nm: "resource_group_name ?a = ''rg1''" "name ?a = ''cache1''"
    by (simp_all add: cache1_args_def)
  have p: "(poll_once (mock_client always_running) ?a ^^ 180) (mock_resource ''Creating'', Some 0) =
      (mock_resource ''Running'', Some 180)"
    using mock_always_running_polls [of 180 ?a "mock_resource ''Creating''" 0] by simp
  show ?thesis
    using provisioning_timeout [of "mock_client always_running" ?a None
        "''ResourceNotFound''" None "mock_resource ''Creating''" "Some 0" "\<lambda>s. s \<noteq> None",
        OF get0 cr ns I mock_always_running]
    unfolding nm p by simp
qed

subsection \<open>The bound of the wait\<close>

text \<open>
  Claim C10. From any cache and any provider, \<open>check_resource_created\<close> returns, having
  added at most 180 fetches and nothing else to the calls; when the cache it starts from
  (the result of the create) is already \<^verbatim>\<open>Succeeded\<close> it makes no call at all and
  answers \<^verbatim>\<open>True\<close>.
\<close>

theorem wait_bounded_by_180_gets:
  "\<exists>r rc s' n.
     check_resource_created c a redis_cache (s, tr) =
       Some (r, rc, (s', tr @ replicate n (Get (resource_group_name a) (name a))))
     \<and> n \<le> 180
     \<and> (r_provisioning_state redis_cache = PStr ''Succeeded'' \<longrightarrow>
          n = 0 \<and> r = Inr True \<and> rc = redis_cache \<and> s' = s)"
proof (cases "r_provisioning_state redis_cache = PStr ''Succeeded''")
  case True
  have "check_resource_created c a redis_cache (s, tr) =
      Some (Inr True, redis_cache, (s, tr @ replicate 0 (Get (resource_group_name a) (name a))))"
    unfolding check_resource_created_def using loop_unfold_done [OF True] by simp
  then show ?thesis by blast
next
  case False
  then show ?thesis using wait_total [of c a redis_cache s tr] by blast
qed

theorem wait_bounded_by_180_gets_witness:
  "r_provisioning_state (mock_resource ''Succeeded'') = PStr ''Succeeded''
   \<and> check_resource_created (mock_client always_running) (cache1_args ''present'')
       (mock_resource ''Succeeded'') (Some 0, []) =
     Some (Inr True, mock_resource ''Succeeded'', (Some 0, []))"
proof -
  have st: "r_provisioning_state (mock_resource ''Succeeded'') = PStr ''Succeeded''"
    by (simp add: mock_resource_def)
  show ?thesis
    using wait_bounded_by_180_gets [of "mock_client always_running" "cache1_args ''present''"
        "mock_resource ''Succeeded''" "Some 0" "[]"] st
    by auto
qed

subsection \<open>The wait against a provider that reports success after K fetches\<close>

lemma wait_running_then_succeeded:
  "K < 179 \<Longrightarrow> r_provisioning_state redis_cache \<noteq> PStr ''Succeeded'' \<Longrightarrow>
   check_resource_created (mock_client (running_then_succeeded K)) a redis_cache (Some 0, tr) =
     Some (Inr True, mock_resource ''Succeeded'',
       (Some (K + 1), tr @ replicate (K + 1) (Get (resource_group_name a) (name a))))"
  unfolding check_resource_created_def
  using mock_wait [of 0 K redis_cache a tr] by simp

text \<open>
  Claim C4, at \<open>K = 179\<close>. The provider reports \<^verbatim>\<open>Running\<close> for 179 fetches and
  \<^verbatim>\<open>Succeeded\<close> at the 180th. The wait makes the 180 fetches, holds a \<^verbatim>\<open>Succeeded\<close>
  cache, and still answers \<^verbatim>\<open>False\<close>: the count is compared with 180 before the
  loop condition is tested again. \<open>exec_module\<close> then fails.
\<close>

theorem wait_fails_at_K_179:
  "check_resource_created (mock_client (running_then_succeeded 179)) (cache1_args ''present'')
       (mock_resource ''Creating'') (Some 0, []) =
     Some (Inr False, mock_resource ''Succeeded'',
           (Some 180, replicate 180 (Get ''rg1'' ''cache1'')))
   \<and> exec_module (mock_client (running_then_succeeded 179)) False (cache1_args ''present'') None =
     Some (Failed ''Waited too long, resource might be created'',
           (Some 180, [Get ''rg1'' ''cache1'',
                       Create ''rg1'' ''cache1'' (create_parameters (cache1_args ''present''))]
                      @ replicate 180 (Get ''rg1'' ''cache1'')))"
proof -
  let ?a = "cache1_args ''present''"
  let ?c = "mock_client (running_then_succeeded 179)"
  have ns: "r_provisioning_state (mock_resource ''Creating'') \<noteq> PStr ''Succeeded''"
    by (simp add: mock_resource_def)
  have nm: "resource_group_name ?a = ''rg1''" "name ?a = ''cache1''" "state ?a = ''present''"
    by (simp_all add: cache1_args_def)
  have w: "\<And>tr. check_resource_created ?c ?a (mock_resource ''Creating'') (Some 0, tr) =
     Some (Inr False, mock_resource ''Succeeded'',
           (Some 180, tr @ replicate 180 (Get ''rg1'' ''cache1'')))"
    unfolding check_resource_created_def
    using mock_wait [of 0 179, OF _ _ ns, of ?a] by (simp add: nm)
  have g: "redis_get ?c ''rg1'' ''cache1'' None = (Inl (CloudError ''ResourceNotFound''), None)"
    by (simp add: mock_client_def)
  have cr: "redis_create ?c ''rg1'' ''cache1'' (create_parameters ?a) None =
      (Inr (mock_resource ''Creating''), Some 0)"
    by (simp add: mock_client_def)
  have e: "exec_module ?c False ?a None =
     Some (Failed ''Waited too long, resource might be created'',
           (Some 180, [Get ''rg1'' ''cache1'', Create ''rg1'' ''cache1'' (create_parameters ?a)]
                      @ replicate 180 (Get ''rg1'' ''cache1'')))"
    using g cr w [of "[Get ''rg1'' ''cache1'', Create ''rg1'' ''cache1'' (create_parameters ?a)]"]
    by (simp add: exec_module_def call_get_def after_fetch_def apply_changes_def call_create_def nm)
  show ?thesis using w [of "[]"] e by simp
qed

subsection \<open>Deleting a cache that exists\<close>

text \<open>
  Claim C8. Outside check mode, with \<^verbatim>\<open>state = 'absent'\<close> and a first fetch that finds
  the cache, the calls of the run are that fetch and one delete; when the delete
  completes, the run returns the results of \<^verbatim>\<open>__init__\<close> with \<^verbatim>\<open>changed = True\<close> and
  \<^verbatim>\<open>state = 'absent'\<close>, every field of the cache still \<^verbatim>\<open>None\<close>.
\<close>

theorem absent_found_deletes_once:
  assumes st: "state a = ''absent''"
    and get0: "redis_get c (resource_group_name a) (name a) s = (Inr redis_cache, s1)"
    and del: "redis_delete c (resource_group_name a) (name a) s1 = (d, s2)"
  shows "calls_of (exec_module c False a s) =
           [Get (resource_group_name a) (name a), Delete (resource_group_name a) (name a)]
     \<and> (d = Inr () \<longrightarrow>
          exec_module c False a s =
            Some (Returned
              [(''id'', PNone), (''name'', PNone), (''location'', PNone), (''tags'', PNone),
               (''provisioning_state'', PNone), (''accessKeys'', PNone), (''hostname'', PNone),
               (''redis_version'', PNone), (''sku'', PNone), (''enable_nonssl_port'', PNone),
               (''redis_configuration'', PNone), (''port'', PNone), (''ssl_port'', PNone),
               (''changed'', PBool True), (''state'', PStr ''absent'')],
              (s2, [Get (resource_group_name a) (name a),
                    Delete (resource_group_name a) (name a)])))"
proof -
  have af: "exec_module c False a s =
      apply_changes c a True init_results (s1, [Get (resource_group_name a) (name a)])"
    using get0 by (simp add: exec_module_def call_get_def after_fetch_def)
  have calls: "calls_of (exec_module c False a s) =
      [Get (resource_group_name a) (name a), Delete (resource_group_name a) (name a)]"
    unfolding af using st del
    by (auto simp: apply_changes_def call_delete_def calls_of_def split: sum.splits exc.splits)
  have ok: "d = Inr () \<Longrightarrow> exec_module c False a s =
      Some (Returned (setitem ''state'' (PStr ''absent'') (setitem ''changed'' (PBool True) init_results)),
            (s2, [Get (resource_group_name a) (name a), Delete (resource_group_name a) (name a)]))"
    unfolding af using st del by (simp add: apply_changes_def call_delete_def)
  have res: "setitem ''state'' (PStr ''absent'') (setitem ''changed'' (PBool True) init_results) =
      [(''id'', PNone), (''name'', PNone), (''location'', PNone), (''tags'', PNone),
       (''provisioning_state'', PNone), (''accessKeys'', PNone), (''hostname'', PNone),
       (''redis_version'', PNone), (''sku'', PNone), (''enable_nonssl_port'', PNone),
       (''redis_configuration'', PNone), (''port'', PNone), (''ssl_port'', PNone),
       (''changed'', PBool True), (''state'', PStr ''absent'')]"
    by (simp add: init_results_def)
  show ?thesis using calls ok res by simp
qed

theorem absent_found_deletes_once_witness:
  "exec_module (mock_client always_running) False (cache1_args ''absent'') (Some 0) =
     Some (Returned
       [(''id'', PNone), (''name'', PNone), (''location'', PNone), (''tags'', PNone),
        (''provisioning_state'', PNone), (''accessKeys'', PNone), (''hostname'', PNone),
        (''redis_version'', PNone), (''sku'', PNone), (''enable_nonssl_port'', PNone),
        (''redis_configuration'', PNone), (''port'', PNone), (''ssl_port'', PNone),
        (''changed'', PBool True), (''state'', PStr ''absent'')],
       (None, [Get ''rg1'' ''cache1'', Delete ''rg1'' ''cache1'']))"
proof -
  let ?a = "cache1_args ''absent''"
  have nm: "resource_group_name ?a = ''rg1''" "name ?a = ''cache1''" "state ?a = ''absent''"
    by (simp_all add: cache1_args_def)
  have get0: "redis_get (mock_client always_running) (resource_group_name ?a) (name ?a) (Some 0) =
      (Inr (mock_resource (always_running 0)), Some 1)"
    by (simp add: mock_client_def)
  have del: "redis_delete (mock_client always_running) (resource_group_name ?a) (name ?a) (Some 1) =
      (Inr (), None)"
    by (simp add: mock_client_def)
  show ?thesis
    using absent_found_deletes_once [OF nm(3) get0 del] by (simp add: nm)
qed

subsection \<open>Runs against the mock provider\<close>

lemma cache1_args_simps:
  "resource_group_name (cache1_args st) = ''rg1''"
  "name (cache1_args st) = ''cache1''"
  "state (cache1_args st) = st"
  by (simp_all add: cache1_args_def)

lemma mock_client_simps:
  "redis_get (mock_client f) rg n None = (Inl (CloudError ''ResourceNotFound''), None)"
  "redis_get (mock_client f) rg n (Some k) = (Inr (mock_resource (f k)), Some (k + 1))"
  "redis_create (mock_client f) rg n ps s = (Inr (mock_resource ''Creating''), Some 0)"
  "redis_delete (mock_client f) rg n s = (Inr (), None)"
  by (simp_all add: mock_client_def)

lemma wait_succeeds_at_once:
  "check_resource_created (mock_client (running_then_succeeded 0)) (cache1_args st)
       (mock_resource ''Creating'') (Some 0, tr) =
     Some (Inr True, mock_resource ''Succeeded'', (Some 1, tr @ [Get ''rg1'' ''cache1'']))"
proof -
  have ns: "r_provisioning_state (mock_resource ''Creating'') \<noteq> PStr ''Succeeded''"
    by (simp add: mock_resource_def)
  show ?thesis
    unfolding check_resource_created_def
    using mock_wait [of 0 0, OF _ _ ns, of "cache1_args st" tr]
    by (simp add: cache1_args_simps)
qed

text \<open>
  The create path against the mock provider, whose first fetch after the create reports
  \<^verbatim>\<open>Succeeded\<close>: the branch taken when \<open>to_update\<close> is \<^verbatim>\<open>False\<close> and the state is
  anything but \<^verbatim>\<open>'present'\<close> in check mode.
\<close>

lemma create_path_run:
  "apply_changes (mock_client (running_then_succeeded 0)) (cache1_args st) False init_results
       (None, [Get ''rg1'' ''cache1'']) =
     Some (Returned (populate_results (mock_resource ''Succeeded'')
                      (setitem ''state'' (PStr ''present'')
                      (setitem ''changed'' (PBool True) init_results))),
           (Some 1, [Get ''rg1'' ''cache1'',
                     Create ''rg1'' ''cache1'' (create_parameters (cache1_args st)),
                     Get ''rg1'' ''cache1'']))"
  using wait_succeeds_at_once [of st "[Get ''rg1'' ''cache1'',
      Create ''rg1'' ''cache1'' (create_parameters (cache1_args st))]"]
  by (simp add: apply_changes_def call_create_def mock_client_simps cache1_args_simps)

lemma exec_not_found:
  "exec_module (mock_client f) check_mode (cache1_args st) None =
     after_fetch (mock_client f) check_mode (cache1_args st) False (None, [Get ''rg1'' ''cache1''])"
  by (simp add: exec_module_def call_get_def mock_client_simps cache1_args_simps)

lemma populated_lookup:
  "map_of (populate_results rc (setitem ''state'' st (setitem ''changed'' ch init_results))) ''changed'' = Some ch"
  "map_of (populate_results rc (setitem ''state'' st (setitem ''changed'' ch init_results))) ''state'' = Some st"
  "map_of (populate_results rc (setitem ''state'' st (setitem ''changed'' ch init_results))) ''enable_nonssl_port'' = Some (r_ssl_port rc)"
  "map_of (populate_results rc (setitem ''state'' st (setitem ''changed'' ch init_results))) ''hostname'' = Some (r_host_name rc)"
  "map_of (populate_results rc (setitem ''state'' st (setitem ''changed'' ch init_results))) ''port'' = Some PNone"
  "map_of (populate_results rc (setitem ''state'' st (setitem ''changed'' ch init_results))) ''ssl_port'' = Some PNone"
  "map_of (populate_results rc (setitem ''state'' st (setitem ''changed'' ch init_results))) ''redis_configuration'' = Some PNone"
  by (simp_all add: populate_results_def init_results_def update_conv')

lemma check_mode_lookup:
  "map_of (setitem ''name'' nm (setitem ''state'' st (setitem ''changed'' ch init_results))) ''changed'' = Some ch"
  by (simp add: init_results_def update_conv')

subsection \<open>No cache and \<^verbatim>\<open>state = 'absent'\<close>\<close>

text \<open>
  Claim C1, at the module's own example with \<^verbatim>\<open>state = 'absent'\<close> and no cache at
  the provider. No branch of lines 291--328 applies, so control reaches the create of
  line 332: the run creates the cache, polls once and returns \<^verbatim>\<open>changed = True\<close>,
  \<^verbatim>\<open>state = 'present'\<close>.
\<close>

theorem absent_not_found_creates:
  "calls_of (exec_module (mock_client (running_then_succeeded 0)) False (cache1_args ''absent'') None) =
     [Get ''rg1'' ''cache1'',
      Create ''rg1'' ''cache1'' (create_parameters (cache1_args ''absent'')),
      Get ''rg1'' ''cache1'']
   \<and> result_of (exec_module (mock_client (running_then_succeeded 0)) False (cache1_args ''absent'') None)
        ''changed'' = Some (PBool True)
   \<and> result_of (exec_module (mock_client (running_then_succeeded 0)) False (cache1_args ''absent'') None)
        ''state'' = Some (PStr ''present'')"
  unfolding exec_not_found
  by (simp add: after_fetch_def create_path_run calls_of_def result_of_def populated_lookup
        cache1_args_simps)

subsection \<open>Check mode\<close>

text \<open>
  Claim C2, at two inputs. With \<^verbatim>\<open>state = 'present'\<close> and no cache, check mode returns
  \<^verbatim>\<open>changed = False\<close> (the local of line 256) where the real run returns
  \<^verbatim>\<open>True\<close>. With \<^verbatim>\<open>state = 'absent'\<close> and no cache, no branch of the check-mode
  block returns, and the run goes on to create the cache although it is in check mode.
\<close>

theorem check_mode_differs:
  "result_of (exec_module (mock_client (running_then_succeeded 0)) True (cache1_args ''present'') None)
     ''changed'' = Some (PBool False)
   \<and> result_of (exec_module (mock_client (running_then_succeeded 0)) False (cache1_args ''present'') None)
     ''changed'' = Some (PBool True)
   \<and> calls_of (exec_module (mock_client (running_then_succeeded 0)) True (cache1_args ''present'') None) =
     [Get ''rg1'' ''cache1'']
   \<and> calls_of (exec_module (mock_client (running_then_succeeded 0)) True (cache1_args ''absent'') None) =
     [Get ''rg1'' ''cache1'',
      Create ''rg1'' ''cache1'' (create_parameters (cache1_args ''absent'')),
      Get ''rg1'' ''cache1'']"
  unfolding exec_not_found
  by (simp add: after_fetch_def create_path_run calls_of_def result_of_def populated_lookup
        check_mode_lookup cache1_args_simps)

subsection \<open>The parameters of the create calls\<close>

lemma update_path_run:
  "exec_module (mock_client (running_then_succeeded 0)) False (cache1_args ''present'') (Some 0) =
     Some (Returned (populate_results (mock_resource ''Creating'')
                      (setitem ''state'' (PStr ''present'')
                      (setitem ''changed'' (PBool True) init_results))),
           (Some 0, [Get ''rg1'' ''cache1'',
                     Create ''rg1'' ''cache1'' (update_parameters (cache1_args ''present''))]))"
  by (simp add: exec_module_def call_get_def after_fetch_def apply_changes_def call_create_def
        mock_client_simps cache1_args_simps)

text \<open>
  Claim C3, at the module's own example. The parameters ask for a Redis configuration, the
  non-SSL port, two shards, a subnet and a static address; the create of the update path
  (the cache exists) and the create of the create path (it does not) both send \<^verbatim>\<open>None\<close>
  for each of them.
\<close>

theorem create_drops_desired_fields:
  "calls_of (exec_module (mock_client (running_then_succeeded 0)) False (cache1_args ''present'') (Some 0)) =
     [Get ''rg1'' ''cache1'',
      Create ''rg1'' ''cache1''
        \<lparr>cp_location = PStr ''westus'',
         cp_sku = PSku (PStr ''Premium'') (PStr ''P'') (PInt 1),
         cp_tags = PNone, cp_redis_configuration = PNone,
         cp_enable_non_ssl_port = PNone, cp_tenant_settings = PNone,
         cp_shard_count = PNone, cp_subnet_id = PNone, cp_static_ip = PNone\<rparr>]
   \<and> calls_of (exec_module (mock_client (running_then_succeeded 0)) False (cache1_args ''present'') None) =
     [Get ''rg1'' ''cache1'',
      Create ''rg1'' ''cache1''
        \<lparr>cp_location = PStr ''westus'',
         cp_sku = PSku (PStr ''Premium'') (PStr ''P'') (PInt 1),
         cp_tags = PNone, cp_redis_configuration = PNone,
         cp_enable_non_ssl_port = PNone, cp_tenant_settings = PNone,
         cp_shard_count = PNone, cp_subnet_id = PNone, cp_static_ip = PNone\<rparr>,
      Get ''rg1'' ''cache1'']
   \<and> redis_configuration (cache1_args ''present'') = PDict [(''maxmemory-policy'', PStr ''allkeys-lru'')]
   \<and> enable_nonssl_port (cache1_args ''present'') = PBool True
   \<and> shard_count (cache1_args ''present'') = PInt 2
   \<and> subnet_id (cache1_args ''present'') = PStr ''subnet1''
   \<and> static_ip (cache1_args ''present'') = PStr ''192.168.0.5''"
proof -
  have u: "update_parameters (cache1_args ''present'') =
        \<lparr>cp_location = PStr ''westus'',
         cp_sku = PSku (PStr ''Premium'') (PStr ''P'') (PInt 1),
         cp_tags = PNone, cp_redis_configuration = PNone,
         cp_enable_non_ssl_port = PNone, cp_tenant_settings = PNone,
         cp_shard_count = PNone, cp_subnet_id = PNone, cp_static_ip = PNone\<rparr>"
    by (simp add: update_parameters_def cache1_args_def)
  have c: "create_parameters (cache1_args ''present'') =
        \<lparr>cp_location = PStr ''westus'',
         cp_sku = PSku (PStr ''Premium'') (PStr ''P'') (PInt 1),
         cp_tags = PNone, cp_redis_configuration = PNone,
         cp_enable_non_ssl_port = PNone, cp_tenant_settings = PNone,
         cp_shard_count = PNone, cp_subnet_id = PNone, cp_static_ip = PNone\<rparr>"
    by (simp add: create_parameters_def cache1_args_def)
  have 1: "calls_of (exec_module (mock_client (running_then_succeeded 0)) False (cache1_args ''present'') (Some 0)) =
     [Get ''rg1'' ''cache1'', Create ''rg1'' ''cache1'' (update_parameters (cache1_args ''present''))]"
    by (simp add: update_path_run calls_of_def)
  have 2: "calls_of (exec_module (mock_client (running_then_succeeded 0)) False (cache1_args ''present'') None) =
     [Get ''rg1'' ''cache1'', Create ''rg1'' ''cache1'' (create_parameters (cache1_args ''present'')),
      Get ''rg1'' ''cache1'']"
    unfolding exec_not_found
    by (simp add: after_fetch_def create_path_run calls_of_def cache1_args_simps)
  have 3: "redis_configuration (cache1_args ''present'') = PDict [(''maxmemory-policy'', PStr ''allkeys-lru'')]"
    "enable_nonssl_port (cache1_args ''present'') = PBool True"
    "shard_count (cache1_args ''present'') = PInt 2"
    "subnet_id (cache1_args ''present'') = PStr ''subnet1''"
    "static_ip (cache1_args ''present'') = PStr ''192.168.0.5''"
    by (simp_all add: cache1_args_def)
  show ?thesis using 1 2 3 unfolding u c by simp
qed

subsection \<open>A failing first fetch\<close>






subsection \<open>The result record\<close>

text \<open>
  Claim C9, at a cache whose non-SSL port is disabled and whose SSL port is 6380.
  \<open>populate_results\<close> stores the SSL port under \<^verbatim>\<open>enable_nonssl_port\<close> (line 377), and
  never stores \<^verbatim>\<open>port\<close>, \<^verbatim>\<open>ssl_port\<close> or \<^verbatim>\<open>redis_configuration\<close>; the host name is
  stored as it is. The same holds of the results of a whole run that creates the cache.
\<close>

theorem populate_results_wrong_field:
  "map_of (populate_results (mock_resource ''Succeeded'') init_results) ''enable_nonssl_port'' =
     Some (PInt 6380)
   \<and> r_enable_non_ssl_port (mock_resource ''Succeeded'') = PBool False
   \<and> map_of (populate_results (mock_resource ''Succeeded'') init_results) ''ssl_port'' = Some PNone
   \<and> r_ssl_port (mock_resource ''Succeeded'') = PInt 6380
   \<and> map_of (populate_results (mock_resource ''Succeeded'') init_results) ''port'' = Some PNone
   \<and> r_port (mock_resource ''Succeeded'') = PInt 6379
   \<and> map_of (populate_results (mock_resource ''Succeeded'') init_results) ''hostname'' =
       Some (PStr ''cache1.redis.cache.windows.net'')
   \<and> r_host_name (mock_resource ''Succeeded'') = PStr ''cache1.redis.cache.windows.net''
   \<and> result_of (exec_module (mock_client (running_then_succeeded 0)) False (cache1_args ''present'') None)
        ''enable_nonssl_port'' = Some (PInt 6380)"
proof -
  have 1: "result_of (exec_module (mock_client (running_then_succeeded 0)) False (cache1_args ''present'') None)
        ''enable_nonssl_port'' = Some (PInt 6380)"
    unfolding exec_not_found
    by (simp add: after_fetch_def create_path_run result_of_def populated_lookup
          cache1_args_simps mock_resource_def)
  have 2: "map_of (populate_results (mock_resource ''Succeeded'') init_results) ''enable_nonssl_port'' =
     Some (PInt 6380)"
    "map_of (populate_results (mock_resource ''Succeeded'') init_results) ''ssl_port'' = Some PNone"
    "map_of (populate_results (mock_resource ''Succeeded'') init_results) ''port'' = Some PNone"
    "map_of (populate_results (mock_resource ''Succeeded'') init_results) ''hostname'' =
       Some (PStr ''cache1.redis.cache.windows.net'')"
    by (simp_all add: populate_results_def init_results_def update_conv' mock_resource_def)
  show ?thesis using 1 2 by (simp add: mock_resource_def)
qed

end
